theory Spec2Isabelle
  imports Complex_Main "HOL-Library.AList"
begin

section \<open>The seeding script \<^verbatim>\<open>docker/seed.py\<close>\<close>

text \<open>
  The script talks to three things it does not define: the DynamoDB client (\<^verbatim>\<open>dynamo\<close>),
  the wall clock (\<^verbatim>\<open>time.time\<close>, \<^verbatim>\<open>time.sleep\<close>) and Python's \<^verbatim>\<open>random\<close> module. Each is an
  input of the embedding: the client and the clock answer as a function of the calls made
  so far, and the random source is a stream of raw draws. What the script does to the
  outside is the list of calls it makes, oldest first. Console output is not recorded.
\<close>

subsection \<open>Python values\<close>

text \<open>A Python \<^verbatim>\<open>dict\<close> is an association list with distinct keys in insertion order;
  \<^verbatim>\<open>d[k] = v\<close> is \<^const>\<open>AList.update\<close> and \<^verbatim>\<open>d.get(k)\<close> is \<^const>\<open>map_of\<close>.\<close>

definition dict_of :: "('k \<times> 'v) list \<Rightarrow> ('k \<times> 'v) list" where
  \<comment> \<open>a dict comprehension: later pairs overwrite earlier ones\<close>
  "dict_of ps = fold (\<lambda>(k, v) d. AList.update k v d) ps []"

definition dict_eq :: "('k \<times> 'v) list \<Rightarrow> ('k \<times> 'v) list \<Rightarrow> bool" where
  \<comment> \<open>\<^verbatim>\<open>d1 == d2\<close> on dicts: the same keys with the same values, in any order\<close>
  "dict_eq d1 d2 \<longleftrightarrow> length d1 = length d2 \<and> list_all (\<lambda>(k, v). map_of d2 k = Some v) d1"

fun join :: "string \<Rightarrow> string list \<Rightarrow> string" where
  "join sep [] = []"
| "join sep [x] = x"
| "join sep (x # y # ys) = x @ sep @ join sep (y # ys)"

definition digit_char :: "nat \<Rightarrow> char" where
  "digit_char d = ''0123456789'' ! (d mod 10)"

fun digits :: "nat \<Rightarrow> string" where
  "digits n = (if n < 10 then [digit_char n] else digits (n div 10) @ [digit_char (n mod 10)])"

declare digits.simps [simp del]

definition str_int :: "int \<Rightarrow> string" where
  \<comment> \<open>\<^verbatim>\<open>str(n)\<close> and \<^verbatim>\<open>f"{n}"\<close> for an int\<close>
  "str_int n = (if n < 0 then ''-'' @ digits (nat (- n)) else digits (nat n))"

definition format_0d :: "nat \<Rightarrow> int \<Rightarrow> string" where
  \<comment> \<open>\<^verbatim>\<open>f"{n:0Wd}"\<close>: zero padding to width \<^verbatim>\<open>W\<close>, the sign counted in the width\<close>
  "format_0d width n =
     (if n < 0
      then ''-'' @ replicate (width - 1 - length (digits (nat (- n)))) (CHR ''0'') @ digits (nat (- n))
      else replicate (width - length (digits (nat n))) (CHR ''0'') @ digits (nat n))"

definition lower_char :: "char \<Rightarrow> char" where
  "lower_char c =
     (let n = (of_char c :: nat) in if 65 \<le> n \<and> n \<le> 90 then char_of (n + 32) else c)"

definition str_lower :: "string \<Rightarrow> string" where
  "str_lower s = map lower_char s"

definition str_replace_char :: "char \<Rightarrow> char \<Rightarrow> string \<Rightarrow> string" where
  \<comment> \<open>\<^verbatim>\<open>s.replace(a, b)\<close> for one-character \<^verbatim>\<open>a\<close> and \<^verbatim>\<open>b\<close>\<close>
  "str_replace_char a b s = map (\<lambda>c. if c = a then b else c) s"

definition py_range :: "int \<Rightarrow> int \<Rightarrow> int list" where
  \<comment> \<open>\<^verbatim>\<open>range(a, b)\<close>; empty when \<^verbatim>\<open>b <= a\<close>\<close>
  "py_range a b = [a..b - 1]"

datatype exn =
    ClientError string
  | RuntimeError string
  | TimeoutError string
  | IndexError
  | ValueError

subsection \<open>The table service\<close>

record key_schema_element =
  AttributeName :: string
  KeyType :: string

record index_desc =
  IndexName :: string
  KeySchema :: "key_schema_element list"
  ProjectionType :: string

record table_schema =
  GlobalSecondaryIndexes :: "index_desc list"
  LocalSecondaryIndexes :: "index_desc list"

text \<open>The part of a \<^verbatim>\<open>describe_table\<close> response the script reads (\<^verbatim>\<open>desc["Table"]\<close>); a list
  the response leaves out is the empty list, as \<^verbatim>\<open>.get(..., [])\<close> makes it.\<close>

record table_desc = table_schema +
  TableStatus :: string

record create_request = table_schema +
  TableName :: string
  AttributeDefinitions :: "(string \<times> string) list"
  TableKeySchema :: "key_schema_element list"
  BillingMode :: string

text \<open>An attribute value of an item: a string, an int, a \<^verbatim>\<open>Decimal\<close> built from the given
  text, or a list of strings. There is no constructor for a binary float.\<close>

datatype attr = S string | N int | D string | SL "string list"

type_synonym item = "(string \<times> attr) list"

datatype call =
    DescribeTable string
  | DeleteTable string
  | CreateTable create_request
  | Sleep real
  | PutItem string item

text \<open>The client and the clock. Each answer depends on the calls made before it.
  \<^verbatim>\<open>Inl code\<close> and \<^verbatim>\<open>Some code\<close> stand for a \<^verbatim>\<open>ClientError\<close> with that error code.\<close>

record dynamo_env =
  describe_table :: "call list \<Rightarrow> string \<Rightarrow> string + table_desc"
  delete_table :: "call list \<Rightarrow> string \<Rightarrow> string option"
  create_table :: "call list \<Rightarrow> create_request \<Rightarrow> string option"
  time_time :: "call list \<Rightarrow> real"

text \<open>A step of the provisioning code: from the calls so far to an exception or a value,
  with the calls extended; \<^const>\<open>None\<close> when the step never returns.\<close>

type_synonym 'a io = "call list \<Rightarrow> ((exn + 'a) \<times> call list) option"

definition bind_io :: "'a io \<Rightarrow> ('a \<Rightarrow> 'b io) \<Rightarrow> 'b io" where
  "bind_io m k h =
     (case m h of
        None \<Rightarrow> None
      | Some (Inl e, h') \<Rightarrow> Some (Inl e, h')
      | Some (Inr x, h') \<Rightarrow> k x h')"

definition return_io :: "'a \<Rightarrow> 'a io" where
  "return_io x h = Some (Inr x, h)"

definition raise_io :: "exn \<Rightarrow> 'a io" where
  "raise_io e h = Some (Inl e, h)"

definition call_delete_table :: "dynamo_env \<Rightarrow> string \<Rightarrow> unit io" where
  "call_delete_table dynamo table_name h =
     Some (case delete_table dynamo h table_name of
             Some code \<Rightarrow> Inl (ClientError code)
           | None \<Rightarrow> Inr (),
           h @ [DeleteTable table_name])"

definition call_create_table :: "dynamo_env \<Rightarrow> create_request \<Rightarrow> unit io" where
  "call_create_table dynamo req h =
     Some (case create_table dynamo h req of
             Some code \<Rightarrow> Inl (ClientError code)
           | None \<Rightarrow> Inr (),
           h @ [CreateTable req])"

subsection \<open>Index validation\<close>

definition index_key_schema :: "index_desc \<Rightarrow> (string \<times> string) list" where
  "index_key_schema index =
     dict_of (map (\<lambda>k. (KeyType k, AttributeName k)) (KeySchema index))"

definition missing_indexes :: "table_desc \<Rightarrow> string list" where
  "missing_indexes table =
     (let gsis = dict_of (map (\<lambda>g. (IndexName g, g)) (GlobalSecondaryIndexes table));
          lsis = dict_of (map (\<lambda>l. (IndexName l, l)) (LocalSecondaryIndexes table));
          missing = [];
          missing =
            (case map_of gsis ''GSI1'' of
               None \<Rightarrow> missing @ [''GSI1'']
             | Some gsi1 \<Rightarrow>
                 if \<not> dict_eq (index_key_schema gsi1)
                        [(''HASH'', ''GSI1PK''), (''RANGE'', ''GSI1SK'')]
                 then missing @ [''GSI1''] else missing);
          missing =
            (case map_of lsis ''LSI1'' of
               None \<Rightarrow> missing @ [''LSI1'']
             | Some lsi1 \<Rightarrow>
                 if \<not> dict_eq (index_key_schema lsi1)
                        [(''HASH'', ''PK''), (''RANGE'', ''LSI1SK'')]
                 then missing @ [''LSI1''] else missing)
      in missing)"

subsection \<open>Waiting for a table state\<close>

text \<open>Both waits are \<^verbatim>\<open>while True\<close> loops. \<^verbatim>\<open>start\<close> is the clock reading taken before the
  loop; each round describes the table, reads the clock and sleeps half a second.\<close>

partial_function (option) wait_table_active_loop ::
  "dynamo_env \<Rightarrow> string \<Rightarrow> int \<Rightarrow> real \<Rightarrow> call list \<Rightarrow> ((exn + unit) \<times> call list) option"
where
  "wait_table_active_loop dynamo table_name timeout_s start h =
     (let h1 = h @ [DescribeTable table_name];
          finished =
            (case describe_table dynamo h table_name of
               Inr desc \<Rightarrow> if TableStatus desc = ''ACTIVE'' then Some (Inr ()) else None
             | Inl code \<Rightarrow>
                 if code \<noteq> ''ResourceNotFoundException''
                 then Some (Inl (ClientError code)) else None)
      in case finished of
           Some r \<Rightarrow> Some (r, h1)
         | None \<Rightarrow>
             if time_time dynamo h1 - start > real_of_int timeout_s
             then Some (Inl (TimeoutError
                    (''Table '' @ table_name @ '' not ACTIVE after '' @ str_int timeout_s @ ''s'')), h1)
             else wait_table_active_loop dynamo table_name timeout_s start (h1 @ [Sleep (1 / 2)]))"

declare wait_table_active_loop.simps [code]

definition wait_table_active :: "dynamo_env \<Rightarrow> string \<Rightarrow> unit io" where
  "wait_table_active dynamo table_name h =
     wait_table_active_loop dynamo table_name 60 (time_time dynamo h) h"

partial_function (option) wait_deleted_loop ::
  "dynamo_env \<Rightarrow> string \<Rightarrow> int \<Rightarrow> real \<Rightarrow> call list \<Rightarrow> ((exn + unit) \<times> call list) option"
where
  "wait_deleted_loop dynamo table_name timeout_s start h =
     (let h1 = h @ [DescribeTable table_name] in
      case describe_table dynamo h table_name of
        Inl code \<Rightarrow>
          if code = ''ResourceNotFoundException''
          then Some (Inr (), h1)
          else Some (Inl (ClientError code), h1)
      | Inr desc \<Rightarrow>
          if time_time dynamo h1 - start > real_of_int timeout_s
          then Some (Inl (TimeoutError
                 (''Table '' @ table_name @ '' not deleted after '' @ str_int timeout_s @ ''s'')), h1)
          else wait_deleted_loop dynamo table_name timeout_s start (h1 @ [Sleep (1 / 2)]))"

declare wait_deleted_loop.simps [code]

definition wait_deleted :: "dynamo_env \<Rightarrow> string \<Rightarrow> unit io" where
  "wait_deleted dynamo table_name h =
     wait_deleted_loop dynamo table_name 60 (time_time dynamo h) h"

subsection \<open>Provisioning\<close>

definition required_table :: "string \<Rightarrow> create_request" where
  \<comment> \<open>the argument of the one \<^verbatim>\<open>create_table\<close> call\<close>
  "required_table table_name =
     \<lparr> GlobalSecondaryIndexes =
         [\<lparr> IndexName = ''GSI1'',
            KeySchema = [\<lparr> AttributeName = ''GSI1PK'', KeyType = ''HASH'' \<rparr>,
                         \<lparr> AttributeName = ''GSI1SK'', KeyType = ''RANGE'' \<rparr>],
            ProjectionType = ''ALL'' \<rparr>],
       LocalSecondaryIndexes =
         [\<lparr> IndexName = ''LSI1'',
            KeySchema = [\<lparr> AttributeName = ''PK'', KeyType = ''HASH'' \<rparr>,
                         \<lparr> AttributeName = ''LSI1SK'', KeyType = ''RANGE'' \<rparr>],
            ProjectionType = ''ALL'' \<rparr>],
       TableName = table_name,
       AttributeDefinitions =
         [(''PK'', ''S''), (''SK'', ''S''), (''GSI1PK'', ''S''), (''GSI1SK'', ''S''),
          (''LSI1SK'', ''S'')],
       TableKeySchema = [\<lparr> AttributeName = ''PK'', KeyType = ''HASH'' \<rparr>,
                         \<lparr> AttributeName = ''SK'', KeyType = ''RANGE'' \<rparr>],
       BillingMode = ''PAY_PER_REQUEST'' \<rparr>"

definition ensure_table_describe :: "dynamo_env \<Rightarrow> string \<Rightarrow> (bool \<times> table_desc option) io" where
  \<comment> \<open>the \<^verbatim>\<open>try\<close> block: \<^verbatim>\<open>(exists, desc)\<close>\<close>
  "ensure_table_describe dynamo table_name h =
     (let h1 = h @ [DescribeTable table_name] in
      case describe_table dynamo h table_name of
        Inr desc \<Rightarrow> Some (Inr (True, Some desc), h1)
      | Inl code \<Rightarrow>
          if code \<noteq> ''ResourceNotFoundException''
          then Some (Inl (ClientError code), h1)
          else Some (Inr (False, None), h1))"

definition ensure_table_check ::
  "dynamo_env \<Rightarrow> string \<Rightarrow> bool \<Rightarrow> bool \<Rightarrow> bool \<Rightarrow> table_desc option \<Rightarrow> bool io" where
  \<comment> \<open>\<^verbatim>\<open>if exists and not recreate: ...\<close>; the value is \<^verbatim>\<open>exists\<close> afterwards\<close>
  "ensure_table_check dynamo table_name recreate recreate_if_missing_indexes exists desc =
     (case desc of
        Some d \<Rightarrow>
          if exists \<and> \<not> recreate then
            let missing = missing_indexes d in
            if missing \<noteq> [] then
              let msg = ''Existing table '' @ table_name @ '' missing indexes: ''
                        @ join '', '' missing @ ''.'' in
              if recreate_if_missing_indexes then
                bind_io (call_delete_table dynamo table_name) (\<lambda>_.
                bind_io (wait_deleted dynamo table_name) (\<lambda>_.
                return_io False))
              else
                raise_io (RuntimeError
                  (msg @ '' Re-run with --recreate (or --recreate-if-missing-indexes).''))
            else return_io exists
          else return_io exists
      | None \<Rightarrow> return_io exists)"

definition ensure_table_drop :: "dynamo_env \<Rightarrow> string \<Rightarrow> bool \<Rightarrow> bool \<Rightarrow> unit io" where
  \<comment> \<open>\<^verbatim>\<open>if exists and recreate: ...\<close>\<close>
  "ensure_table_drop dynamo table_name recreate exists =
     (if exists \<and> recreate then
        bind_io (call_delete_table dynamo table_name) (\<lambda>_. wait_deleted dynamo table_name)
      else return_io ())"

definition ensure_table_create :: "dynamo_env \<Rightarrow> string \<Rightarrow> bool \<Rightarrow> bool \<Rightarrow> unit io" where
  \<comment> \<open>\<^verbatim>\<open>if not exists or recreate: ...\<close>\<close>
  "ensure_table_create dynamo table_name recreate exists =
     (if \<not> exists \<or> recreate then call_create_table dynamo (required_table table_name)
      else return_io ())"

definition ensure_table :: "dynamo_env \<Rightarrow> string \<Rightarrow> bool \<Rightarrow> bool \<Rightarrow> bool io" where
  "ensure_table dynamo table_name recreate recreate_if_missing_indexes =
     bind_io (ensure_table_describe dynamo table_name) (\<lambda>(exists, desc).
     bind_io (ensure_table_check dynamo table_name recreate recreate_if_missing_indexes
                exists desc) (\<lambda>exists.
     bind_io (ensure_table_drop dynamo table_name recreate exists) (\<lambda>_.
     bind_io (ensure_table_create dynamo table_name recreate exists) (\<lambda>_.
     bind_io (wait_table_active dynamo table_name) (\<lambda>_.
     return_io exists)))))"

subsection \<open>Random values\<close>

text \<open>
  \<^verbatim>\<open>'f\<close> is the type of Python floats. Their arithmetic, rounding and printing are inputs
  (the fields \<^verbatim>\<open>f_...\<close>), as are the raw draws behind the \<^verbatim>\<open>random\<close> module and the readings
  of \<^verbatim>\<open>datetime.now\<close> (microseconds since the epoch). A draw is addressed by the number of
  draws made before it.
\<close>

record 'f py_env =
  random_raw :: "nat \<Rightarrow> nat"
  random_uniform :: "nat \<Rightarrow> 'f"        \<comment> \<open>\<^verbatim>\<open>random.uniform(0.49, 1.99)\<close>\<close>
  datetime_now :: "nat \<Rightarrow> int"         \<comment> \<open>\<^verbatim>\<open>datetime.now(timezone.utc)\<close>\<close>
  f_zero :: 'f                         \<comment> \<open>the literal \<^verbatim>\<open>0.0\<close>\<close>
  f_add :: "'f \<Rightarrow> 'f \<Rightarrow> 'f"             \<comment> \<open>\<^verbatim>\<open>x + y\<close>\<close>
  f_mul_int :: "'f \<Rightarrow> int \<Rightarrow> 'f"        \<comment> \<open>\<^verbatim>\<open>x * n\<close>\<close>
  f_round2 :: "'f \<Rightarrow> 'f"               \<comment> \<open>\<^verbatim>\<open>round(x, 2)\<close>\<close>
  f_round :: "'f \<Rightarrow> int"               \<comment> \<open>\<^verbatim>\<open>round(x)\<close>\<close>
  f_str :: "'f \<Rightarrow> string"              \<comment> \<open>\<^verbatim>\<open>str(x)\<close>\<close>
  f_timestamp :: "int \<Rightarrow> 'f"           \<comment> \<open>\<^verbatim>\<open>dt.timestamp()\<close> of a time in microseconds\<close>
  f_int :: "'f \<Rightarrow> int"                 \<comment> \<open>\<^verbatim>\<open>int(x)\<close>\<close>

record gen_state =
  draws :: nat
  puts :: "item list"                  \<comment> \<open>the items given to \<^verbatim>\<open>b.put_item\<close>, oldest first\<close>
  artist_ids :: "string list"
  album_ids :: "string list"
  track_ids :: "string list"

type_synonym 'a gen = "gen_state \<Rightarrow> exn + 'a \<times> gen_state"

definition bind_gen :: "'a gen \<Rightarrow> ('a \<Rightarrow> 'b gen) \<Rightarrow> 'b gen" where
  "bind_gen m k s = (case m s of Inl e \<Rightarrow> Inl e | Inr (x, s') \<Rightarrow> k x s')"

definition return_gen :: "'a \<Rightarrow> 'a gen" where
  "return_gen x s = Inr (x, s)"

fun for_each :: "'i list \<Rightarrow> ('i \<Rightarrow> 'a \<Rightarrow> 'a gen) \<Rightarrow> 'a \<Rightarrow> 'a gen" where
  \<comment> \<open>a \<^verbatim>\<open>for\<close> loop; \<^verbatim>\<open>acc\<close> holds the local variables the body updates\<close>
  "for_each [] body acc s = Inr (acc, s)"
| "for_each (i # is) body acc s =
     (case body i acc s of Inl e \<Rightarrow> Inl e | Inr (acc', s') \<Rightarrow> for_each is body acc' s')"

definition random_choice :: "'f py_env \<Rightarrow> 'a list \<Rightarrow> 'a gen" where
  "random_choice env seq s =
     (if seq = [] then Inl IndexError
      else Inr (seq ! (random_raw env (draws s) mod length seq), s\<lparr>draws := draws s + 1\<rparr>))"

definition random_choices :: "'f py_env \<Rightarrow> 'a list \<Rightarrow> nat \<Rightarrow> 'a list gen" where
  "random_choices env population k s =
     (if population = [] then Inl IndexError
      else Inr (map (\<lambda>i. population ! (random_raw env (draws s + i) mod length population)) [0..<k],
                s\<lparr>draws := draws s + k\<rparr>))"

definition random_randint :: "'f py_env \<Rightarrow> int \<Rightarrow> int \<Rightarrow> int gen" where
  "random_randint env a b s =
     (if b < a then Inl ValueError
      else Inr (a + int (random_raw env (draws s) mod nat (b - a + 1)), s\<lparr>draws := draws s + 1\<rparr>))"

fun sample_from :: "(nat \<Rightarrow> nat) \<Rightarrow> nat \<Rightarrow> nat \<Rightarrow> 'a list \<Rightarrow> 'a list" where
  "sample_from raw pos 0 pool = []"
| "sample_from raw pos (Suc k) pool =
     (let i = raw pos mod length pool
      in pool ! i # sample_from raw (Suc pos) k (take i pool @ drop (Suc i) pool))"

definition random_sample :: "'f py_env \<Rightarrow> 'a list \<Rightarrow> int \<Rightarrow> 'a list gen" where
  "random_sample env population k s =
     (if k < 0 \<or> int (length population) < k then Inl ValueError
      else Inr (sample_from (random_raw env) (draws s) (nat k) population,
                s\<lparr>draws := draws s + nat k\<rparr>))"

definition uniform_price :: "'f py_env \<Rightarrow> 'f gen" where
  \<comment> \<open>\<^verbatim>\<open>round(random.uniform(0.49, 1.99), 2)\<close>\<close>
  "uniform_price env s =
     Inr (f_round2 env (random_uniform env (draws s)), s\<lparr>draws := draws s + 1\<rparr>)"

definition now_utc :: "'f py_env \<Rightarrow> int gen" where
  "now_utc env s = Inr (datetime_now env (draws s), s)"

definition put_item :: "item \<Rightarrow> unit gen" where
  "put_item item s = Inr ((), s\<lparr>puts := puts s @ [item]\<rparr>)"

subsection \<open>Helpers of the script\<close>

definition ARTIST_NAMES :: "string list" where
  "ARTIST_NAMES =
     [''The Meteors'', ''Sonic Avenue'', ''Neon Fields'', ''Crimson Tide'', ''Blue Horizon'',
      ''The Wanderers'', ''Velvet Echo'', ''Golden Owls'', ''Stone Harbor'', ''Silver Lining'',
      ''Paper Tigers'', ''Echo Beach'', ''Analog Youth'', ''Glass Engine'', ''Static Ritual'']"

definition ALBUM_WORDS :: "string list" where
  "ALBUM_WORDS =
     [''Echoes'', ''Horizons'', ''Reflections'', ''Neon'', ''Fragments'', ''Voyager'',
      ''Midnight'', ''Catalyst'', ''Blueprints'', ''Origins'', ''Spectra'', ''Signals'']"

definition GENRES :: "string list" where
  "GENRES = [''Rock'', ''Pop'', ''Indie'', ''Jazz'', ''Blues'', ''Classical'', ''Electronic'',
             ''Hip-Hop'']"

definition INSTRUMENTS :: "string list" where
  "INSTRUMENTS = [''Guitar'', ''Bass'', ''Drums'', ''Keys'', ''Synth'', ''Violin'', ''Sax'',
                  ''Trumpet'']"

definition CITIES :: "string list" where
  "CITIES = [''Seattle'', ''Berlin'', ''Madrid'', ''Reykjavik'', ''Austin'', ''Dublin'', ''Sydney'',
             ''Tokyo'']"

definition id_alphabet :: string where
  \<comment> \<open>\<^verbatim>\<open>string.ascii_uppercase + string.digits\<close>\<close>
  "id_alphabet = ''ABCDEFGHIJKLMNOPQRSTUVWXYZ0123456789''"

definition rand_id :: "'f py_env \<Rightarrow> string \<Rightarrow> string gen" where
  "rand_id env prefix =
     bind_gen (random_choices env id_alphabet 8) (\<lambda>cs.
     return_gen (prefix @ ''#'' @ cs))"

definition rand_title :: "'f py_env \<Rightarrow> string gen" where
  "rand_title env =
     bind_gen (random_choice env ALBUM_WORDS) (\<lambda>w1.
     bind_gen (random_choice env ALBUM_WORDS) (\<lambda>w2.
     return_gen (w1 @ '' '' @ w2)))"

definition rand_track_name :: "'f py_env \<Rightarrow> string gen" where
  "rand_track_name env =
     bind_gen (random_choice env
       [''Lost'', ''Found'', ''Faded'', ''Bright'', ''Hidden'', ''Open'']) (\<lambda>w1.
     bind_gen (random_choice env
       [''Waves'', ''Lines'', ''Skies'', ''Rooms'', ''Streets'', ''Windows'']) (\<lambda>w2.
     return_gen (w1 @ '' '' @ w2)))"

definition rand_name :: "'f py_env \<Rightarrow> string gen" where
  "rand_name env =
     bind_gen (random_choice env
       [''Alex'', ''Sam'', ''Charlie'', ''Taylor'', ''Morgan'', ''Riley'', ''Jordan'', ''Casey'',
        ''Avery'', ''Quinn'']) (\<lambda>first.
     bind_gen (random_choice env
       [''Smith'', ''Lee'', ''Martinez'', ''Kim'', ''Nguyen'', ''Garcia'', ''Patel'', ''Cohen'',
        ''Novak'', ''Khan'']) (\<lambda>last.
     return_gen (first @ '' '' @ last)))"

definition rand_email :: "'f py_env \<Rightarrow> string \<Rightarrow> string gen" where
  "rand_email env name =
     (let handle = str_replace_char (CHR '' '') (CHR ''.'') (str_lower name) in
      bind_gen (random_choice env [''example.com'', ''mail.test'', ''demo.local'']) (\<lambda>domain.
      return_gen (handle @ ''@'' @ domain)))"

definition add_index_keys ::
  "item \<Rightarrow> string \<Rightarrow> string \<Rightarrow> string \<Rightarrow> string option \<Rightarrow> item" where
  "add_index_keys item item_type pk sk lsi1sk =
     (let item = AList.update ''GSI1PK'' (S (''TYPE#'' @ item_type)) item;
          item = AList.update ''GSI1SK'' (S (pk @ ''#'' @ sk)) item;
          item = AList.update ''LSI1SK'' (S (case lsi1sk of Some v \<Rightarrow> v | None \<Rightarrow> sk)) item
      in item)"

subsection \<open>Seeding\<close>

record sizes =
  artists :: int
  albums_per_artist :: int
  tracks_per_album :: int
  customers :: int
  invoices_per_customer :: int
  lines_per_invoice :: int

definition append_artist_id :: "string \<Rightarrow> unit gen" where
  "append_artist_id x s = Inr ((), s\<lparr>artist_ids := artist_ids s @ [x]\<rparr>)"

definition append_album_id :: "string \<Rightarrow> unit gen" where
  "append_album_id x s = Inr ((), s\<lparr>album_ids := album_ids s @ [x]\<rparr>)"

definition append_track_id :: "string \<Rightarrow> unit gen" where
  "append_track_id x s = Inr ((), s\<lparr>track_ids := track_ids s @ [x]\<rparr>)"

text \<open>The bodies of the five nested loops of \<^verbatim>\<open>seed_data\<close>, innermost first. Where the
  script reads \<^verbatim>\<open>item["PK"]\<close>, \<^verbatim>\<open>item["SK"]\<close>, \<^verbatim>\<open>item['name']\<close> or \<^verbatim>\<open>item['year']\<close> back from the
  dict literal it has just built, the embedding uses the value the literal was built from.\<close>

definition seed_track :: "'f py_env \<Rightarrow> string \<Rightarrow> unit gen" where
  "seed_track env album_id =
     bind_gen (rand_id env ''TRACK'') (\<lambda>track_id.
     bind_gen (append_track_id track_id) (\<lambda>_.
     bind_gen (rand_track_name env) (\<lambda>name.
     bind_gen (random_randint env 90000 360000) (\<lambda>milliseconds.
     bind_gen (random_randint env 512000 8000000) (\<lambda>bytes.
     bind_gen (uniform_price env) (\<lambda>price.
     let item = [(''PK'', S album_id),
                 (''SK'', S track_id),
                 (''type'', S ''Track''),
                 (''track_id'', S track_id),
                 (''name'', S name),
                 (''milliseconds'', N milliseconds),
                 (''bytes'', N bytes),
                 (''unit_price'', D (f_str env price))];
         track_lsi = ''TRACK#'' @ name @ ''#'' @ track_id;
         item = add_index_keys item ''Track'' album_id track_id (Some track_lsi)
     in put_item item))))))"

definition seed_album :: "'f py_env \<Rightarrow> sizes \<Rightarrow> string \<Rightarrow> unit gen" where
  "seed_album env sz artist_id =
     bind_gen (rand_id env ''ALBUM'') (\<lambda>album_id.
     bind_gen (append_album_id album_id) (\<lambda>_.
     bind_gen (rand_title env) (\<lambda>title.
     bind_gen (random_randint env 1995 2024) (\<lambda>year.
     bind_gen (random_choice env GENRES) (\<lambda>genre.
     let item = [(''PK'', S artist_id),
                 (''SK'', S album_id),
                 (''type'', S ''Album''),
                 (''album_id'', S album_id),
                 (''title'', S title),
                 (''year'', N year),
                 (''genre'', S genre)];
         album_lsi = ''ALBUM#'' @ format_0d 4 year @ ''#'' @ album_id;
         item = add_index_keys item ''Album'' artist_id album_id (Some album_lsi)
     in bind_gen (put_item item) (\<lambda>_.
        for_each (py_range 0 (tracks_per_album sz)) (\<lambda>t _. seed_track env album_id) ()))))))"

definition seed_artist :: "'f py_env \<Rightarrow> sizes \<Rightarrow> unit gen" where
  "seed_artist env sz =
     bind_gen (rand_id env ''ARTIST'') (\<lambda>artist_id.
     bind_gen (append_artist_id artist_id) (\<lambda>_.
     bind_gen (random_choice env ARTIST_NAMES) (\<lambda>name.
     bind_gen (random_choice env CITIES) (\<lambda>city.
     bind_gen (random_randint env 1970 2020) (\<lambda>formed.
     bind_gen (random_randint env 2 4) (\<lambda>k.
     bind_gen (random_sample env INSTRUMENTS k) (\<lambda>members.
     let item = [(''PK'', S artist_id),
                 (''SK'', S artist_id),
                 (''type'', S ''Artist''),
                 (''name'', S name),
                 (''city'', S city),
                 (''formed'', N formed),
                 (''members'', SL members)];
         artist_lsi = ''PROFILE#'' @ name;
         item = add_index_keys item ''Artist'' artist_id artist_id (Some artist_lsi)
     in bind_gen (put_item item) (\<lambda>_.
        for_each (py_range 0 (albums_per_artist sz)) (\<lambda>_ _. seed_album env sz artist_id) ()))))))))"

definition seed_line :: "'f py_env \<Rightarrow> string \<Rightarrow> int \<Rightarrow> 'f \<Rightarrow> 'f gen" where
  \<comment> \<open>the accumulator is the local \<^verbatim>\<open>total\<close>\<close>
  "seed_line env inv_id line_ix total_in =
     bind_gen (\<lambda>s. if track_ids s \<noteq> [] then random_choice env (track_ids s) s
                   else rand_id env ''TRACK'' s) (\<lambda>trk.
     bind_gen (uniform_price env) (\<lambda>price.
     bind_gen (random_randint env 1 3) (\<lambda>qty.
     let total = f_add env total_in (f_mul_int env price qty);
         price_cents = f_round env (f_mul_int env price 100);
         item = [(''PK'', S inv_id),
                 (''SK'', S (''LINE#'' @ str_int line_ix)),
                 (''type'', S ''InvoiceLine''),
                 (''track_id'', S trk),
                 (''unit_price'', D (f_str env price)),
                 (''quantity'', D (str_int qty))];
         line_lsi = ''PRICE#'' @ format_0d 5 price_cents @ ''#LINE#'' @ format_0d 3 line_ix;
         item = add_index_keys item ''InvoiceLine'' inv_id (''LINE#'' @ str_int line_ix)
                  (Some line_lsi)
     in bind_gen (put_item item) (\<lambda>_. return_gen total))))"

definition seed_invoice :: "'f py_env \<Rightarrow> sizes \<Rightarrow> string \<Rightarrow> unit gen" where
  "seed_invoice env sz cust_id =
     bind_gen (rand_id env ''INVOICE'') (\<lambda>inv_id.
     bind_gen (now_utc env) (\<lambda>now.
     bind_gen (random_randint env 0 365) (\<lambda>days.
     let dt = now - days * 86400 * 1000000;
         ts = f_int env (f_timestamp env dt);
         invoice_lsi = ''INVOICE#'' @ format_0d 10 ts @ ''#'' @ inv_id;
         total = f_zero env;
         item = [(''PK'', S cust_id),
                 (''SK'', S inv_id),
                 (''type'', S ''Invoice''),
                 (''invoice_id'', S inv_id),
                 (''ts'', N ts)];
         item = add_index_keys item ''Invoice'' cust_id inv_id (Some invoice_lsi)
     in bind_gen (put_item item) (\<lambda>_.
        bind_gen (for_each (py_range 1 (lines_per_invoice sz + 1)) (seed_line env inv_id) total)
          (\<lambda>total.
        let item = [(''PK'', S cust_id),
                    (''SK'', S inv_id),
                    (''type'', S ''Invoice''),
                    (''invoice_id'', S inv_id),
                    (''ts'', N ts),
                    (''total'', D (f_str env (f_round2 env total)))];
            item = add_index_keys item ''Invoice'' cust_id inv_id (Some invoice_lsi)
        in put_item item)))))"

definition seed_customer :: "'f py_env \<Rightarrow> sizes \<Rightarrow> unit gen" where
  "seed_customer env sz =
     bind_gen (rand_id env ''CUSTOMER'') (\<lambda>cust_id.
     bind_gen (rand_name env) (\<lambda>name.
     bind_gen (rand_email env name) (\<lambda>email.
     bind_gen (random_choice env CITIES) (\<lambda>city.
     let item = [(''PK'', S cust_id),
                 (''SK'', S ''PROFILE''),
                 (''type'', S ''Customer''),
                 (''name'', S name),
                 (''email'', S email),
                 (''city'', S city)];
         customer_lsi = ''PROFILE#'' @ name;
         item = add_index_keys item ''Customer'' cust_id ''PROFILE'' (Some customer_lsi)
     in bind_gen (put_item item) (\<lambda>_.
        for_each (py_range 0 (invoices_per_customer sz)) (\<lambda>inv_ix _. seed_invoice env sz cust_id)
          ())))))"

definition seed_artists :: "'f py_env \<Rightarrow> sizes \<Rightarrow> unit gen" where
  \<comment> \<open>the first top-level loop\<close>
  "seed_artists env sz = for_each (py_range 0 (artists sz)) (\<lambda>_ _. seed_artist env sz) ()"

definition seed_customers :: "'f py_env \<Rightarrow> sizes \<Rightarrow> unit gen" where
  \<comment> \<open>the second top-level loop\<close>
  "seed_customers env sz = for_each (py_range 0 (customers sz)) (\<lambda>_ _. seed_customer env sz) ()"

definition seed_data :: "'f py_env \<Rightarrow> sizes \<Rightarrow> exn + unit \<times> gen_state" where
  "seed_data env sz =
     bind_gen (seed_artists env sz) (\<lambda>_. seed_customers env sz)
       \<lparr> draws = 0, puts = [], artist_ids = [], album_ids = [], track_ids = [] \<rparr>"

subsection \<open>The command line\<close>

record args = sizes +
  endpoint_url :: "string option"
  table :: string
  region :: string
  recreate :: bool
  recreate_if_missing_indexes :: bool
  skip_if_exists :: bool

text \<open>How the process ends: \<^verbatim>\<open>sys.exit(code)\<close> (returning from \<^verbatim>\<open>main\<close> is exit code 0), or
  an exception nothing catches.\<close>

datatype outcome = Exit int | Uncaught exn

definition main ::
  "dynamo_env \<Rightarrow> 'f py_env \<Rightarrow> args \<Rightarrow> call list \<Rightarrow> (outcome \<times> call list) option" where
  \<comment> \<open>\<^verbatim>\<open>h0\<close>: the calls the service has seen before this run\<close>
  "main dynamo env a h0 =
     (case ensure_table dynamo (table a) (recreate a) (recreate_if_missing_indexes a) h0 of
        None \<Rightarrow> None
      | Some (Inl e, h) \<Rightarrow>
          (case e of
             ClientError m \<Rightarrow> Some (Exit 1, h)
           | RuntimeError m \<Rightarrow> Some (Exit 1, h)
           | TimeoutError m \<Rightarrow> Some (Exit 1, h)
           | _ \<Rightarrow> Some (Uncaught e, h))
      | Some (Inr existed, h) \<Rightarrow>
          if existed \<and> skip_if_exists a \<and> \<not> recreate a then Some (Exit 0, h)
          else
            (case seed_data env (sizes.truncate a) of
               Inl e \<Rightarrow> Some (Uncaught e, h)
             | Inr (u, s) \<Rightarrow> Some (Exit 0, h @ map (PutItem (table a)) (puts s))))"

subsection \<open>A simulated service and exact decimal numbers, for concrete runs\<close>

text \<open>A table service that keeps one table: it is there after a \<^verbatim>\<open>create_table\<close> and gone
  after a \<^verbatim>\<open>delete_table\<close>, at once. \<^verbatim>\<open>init\<close> is the table before the first call, \<^verbatim>\<open>tick\<close> the
  seconds the clock advances with every call.\<close>

fun sim_table :: "table_desc option \<Rightarrow> call list \<Rightarrow> table_desc option" where
  "sim_table init [] = init"
| "sim_table init (DeleteTable n # cs) = sim_table None cs"
| "sim_table init (CreateTable r # cs) =
     sim_table (Some \<lparr> GlobalSecondaryIndexes = GlobalSecondaryIndexes r,
                       LocalSecondaryIndexes = LocalSecondaryIndexes r,
                       TableStatus = ''ACTIVE'' \<rparr>) cs"
| "sim_table init (c # cs) = sim_table init cs"

definition sim_dynamo :: "table_desc option \<Rightarrow> real \<Rightarrow> dynamo_env" where
  "sim_dynamo init tick =
     \<lparr> describe_table = (\<lambda>h n. case sim_table init h of
                                  None \<Rightarrow> Inl ''ResourceNotFoundException''
                                | Some d \<Rightarrow> Inr d),
       delete_table = (\<lambda>h n. case sim_table init h of
                                None \<Rightarrow> Some ''ResourceNotFoundException''
                              | Some d \<Rightarrow> None),
       create_table = (\<lambda>h r. case sim_table init h of
                                None \<Rightarrow> None
                              | Some d \<Rightarrow> Some ''ResourceInUseException''),
       time_time = (\<lambda>h. tick * real (length h)) \<rparr>"

definition bare_table :: "string \<Rightarrow> table_desc" where
  \<comment> \<open>a table without secondary indexes\<close>
  "bare_table status =
     \<lparr> GlobalSecondaryIndexes = [], LocalSecondaryIndexes = [], TableStatus = status \<rparr>"

definition indexed_table :: "string \<Rightarrow> table_desc" where
  \<comment> \<open>a table with the two indexes of \<^const>\<open>required_table\<close>\<close>
  "indexed_table status =
     \<lparr> GlobalSecondaryIndexes = GlobalSecondaryIndexes (required_table ''t''),
       LocalSecondaryIndexes = LocalSecondaryIndexes (required_table ''t''),
       TableStatus = status \<rparr>"

text \<open>Numbers with two decimals, held as hundredths, with exact arithmetic; printed as Python
  prints a float with that value (\<^verbatim>\<open>0.0\<close>, \<^verbatim>\<open>1.5\<close>, \<^verbatim>\<open>0.49\<close>). They stand in for floats in
  concrete runs only.\<close>

definition cents_str :: "int \<Rightarrow> string" where
  "cents_str c =
     (let a = nat \<bar>c\<bar>; frac = a mod 100
      in (if c < 0 then [CHR ''-''] else []) @ digits (a div 100) @ [CHR ''.''] @
         (if frac mod 10 = 0 then [digit_char (frac div 10)]
          else [digit_char (frac div 10), digit_char (frac mod 10)]))"

definition cents_round :: "int \<Rightarrow> int" where
  \<comment> \<open>to the nearest whole number, a tie to the even one\<close>
  "cents_round c =
     (if c mod 100 = 50 then 2 * ((c + 100) div 200) else (c + 50) div 100)"

definition cents_env :: "(nat \<Rightarrow> nat) \<Rightarrow> int py_env" where
  "cents_env raw =
     \<lparr> random_raw = raw,
       random_uniform = (\<lambda>i. 49 + int (raw i mod 151)),
       datetime_now = (\<lambda>i. 1700000000000000 + int i),
       f_zero = 0,
       f_add = (\<lambda>x y. x + y),
       f_mul_int = (\<lambda>x n. x * n),
       f_round2 = (\<lambda>x. x),
       f_round = cents_round,
       f_str = cents_str,
       f_timestamp = (\<lambda>us. us div 10000),
       f_int = (\<lambda>x. if x < 0 then - ((- x) div 100) else x div 100) \<rparr>"

definition small_run :: args where
  "small_run =
     \<lparr> artists = 2, albums_per_artist = 1, tracks_per_album = 1, customers = 1,
       invoices_per_customer = 1, lines_per_invoice = 2,
       endpoint_url = Some ''http://localhost:8000'', table = ''t'', region = ''us-east-1'',
       recreate = False, recreate_if_missing_indexes = False, skip_if_exists = False \<rparr>"

definition recreate_missing_run :: args where
  \<comment> \<open>one artist and nothing else, with \<^verbatim>\<open>--recreate-if-missing-indexes\<close>\<close>
  "recreate_missing_run =
     small_run\<lparr> artists := 1, albums_per_artist := 0, customers := 0,
                 recreate_if_missing_indexes := True \<rparr>"

section \<open>Provisioning failures\<close>

lemmas io_defs =
  bind_io_def return_io_def raise_io_def call_delete_table_def call_create_table_def
  ensure_table_def ensure_table_describe_def ensure_table_check_def ensure_table_drop_def
  ensure_table_create_def

lemma missing_indexes_bare_table:
  "missing_indexes (bare_table status) = [''GSI1'', ''LSI1'']"
  by (simp add: missing_indexes_def bare_table_def dict_of_def)

text \<open>
  Claim C1, as amended. When the table exists (the first \<^verbatim>\<open>describe_table\<close> answers with a
  description), \<^verbatim>\<open>recreate\<close> and \<^verbatim>\<open>recreate_if_missing_indexes\<close> are both false and
  \<^const>\<open>missing_indexes\<close> reports an index as missing, the process ends with exit code 1 and
  the only call it has made is that \<^verbatim>\<open>describe_table\<close>: no item is written, and the table is
  neither deleted nor created.
\<close>

theorem missing_index_is_fatal:
  assumes "describe_table dynamo h0 (table a) = Inr d"
    and "\<not> recreate a"
    and "\<not> recreate_if_missing_indexes a"
    and "missing_indexes d \<noteq> []"
  shows "main dynamo env a h0 = Some (Exit 1, h0 @ [DescribeTable (table a)])"
  using assms by (simp add: main_def io_defs Let_def)

theorem missing_index_is_fatal_witness:
  "describe_table (sim_dynamo (Some (bare_table ''ACTIVE'')) 1) [] (table small_run)
     = Inr (bare_table ''ACTIVE'')
   \<and> \<not> recreate small_run
   \<and> \<not> recreate_if_missing_indexes small_run
   \<and> missing_indexes (bare_table ''ACTIVE'') \<noteq> []
   \<and> main (sim_dynamo (Some (bare_table ''ACTIVE'')) 1) (cents_env (\<lambda>i. 0)) small_run []
       = Some (Exit 1, [DescribeTable ''t''])"
proof -
  have h1: "describe_table (sim_dynamo (Some (bare_table ''ACTIVE'')) 1) [] (table small_run)
              = Inr (bare_table ''ACTIVE'')"
    by (simp add: sim_dynamo_def)
  have h2: "\<not> recreate small_run" and h3: "\<not> recreate_if_missing_indexes small_run"
    by (simp_all add: small_run_def)
  have h4: "missing_indexes (bare_table ''ACTIVE'') \<noteq> []"
    by (simp add: missing_indexes_bare_table)
  have "main (sim_dynamo (Some (bare_table ''ACTIVE'')) 1) (cents_env (\<lambda>i. 0)) small_run []
          = Some (Exit 1, [] @ [DescribeTable (table small_run)])"
    using h1 h2 h3 h4 by (rule missing_index_is_fatal)
  then show ?thesis using h1 h2 h3 h4 by (simp add: small_run_def)
qed

text \<open>
  Claim C1 as stated leaves \<^verbatim>\<open>recreate_if_missing_indexes\<close> free. With that flag set, a run
  on an existing table without indexes and with \<^verbatim>\<open>recreate\<close> false deletes the table, creates
  it again, writes an artist and ends with exit code 0.
\<close>

theorem missing_index_recreated_counterexample:
  "describe_table (sim_dynamo (Some (bare_table ''ACTIVE'')) 1) [] (table recreate_missing_run)
     = Inr (bare_table ''ACTIVE'')
   \<and> missing_indexes (bare_table ''ACTIVE'') = [''GSI1'', ''LSI1'']
   \<and> \<not> recreate recreate_missing_run
   \<and> main (sim_dynamo (Some (bare_table ''ACTIVE'')) 1) (cents_env (\<lambda>i. 0))
        recreate_missing_run []
       = Some (Exit 0,
           [DescribeTable ''t'', DeleteTable ''t'', DescribeTable ''t'',
            CreateTable (required_table ''t''), DescribeTable ''t'',
            PutItem ''t''
              [(''PK'', S ''ARTIST#AAAAAAAA''), (''SK'', S ''ARTIST#AAAAAAAA''),
               (''type'', S ''Artist''), (''name'', S ''The Meteors''),
               (''city'', S ''Seattle''), (''formed'', N 1970),
               (''members'', SL [''Guitar'', ''Bass'']),
               (''GSI1PK'', S ''TYPE#Artist''),
               (''GSI1SK'', S ''ARTIST#AAAAAAAA#ARTIST#AAAAAAAA''),
               (''LSI1SK'', S ''PROFILE#The Meteors'')]])"
  by code_simp

end
